theory Spec2Isabelle
  imports Main "HOL-Library.Word"
begin

section \<open>Strings and bytes\<close>

text \<open>
  JavaScript strings are modelled as \<^typ>\<open>string\<close> (lists of 8-bit characters), so the
  model covers names and patterns whose char codes are below 256; a \<open>Buffer\<close> is a list
  of bytes.
\<close>

type_synonym byte = "8 word"

text \<open>\<open>String.prototype.startsWith\<close> and \<open>String.prototype.includes\<close>.\<close>

fun startsWith :: "string \<Rightarrow> string \<Rightarrow> bool" where
  "startsWith s [] = True"
| "startsWith [] (p # ps) = False"
| "startsWith (c # s) (p # ps) = (c = p \<and> startsWith s ps)"

fun includes_str :: "string \<Rightarrow> string \<Rightarrow> bool" where
  "includes_str [] sub = (sub = [])"
| "includes_str (c # s) sub = (startsWith (c # s) sub \<or> includes_str s sub)"

text \<open>\<open>xs.slice(i, j)\<close> for \<open>0 \<le> i \<le> j\<close>.\<close>

definition slice :: "nat \<Rightarrow> nat \<Rightarrow> 'a list \<Rightarrow> 'a list" where
  "slice i j xs = take (j - i) (drop i xs)"

section \<open>PermissionChecker: octal and symbolic permission strings\<close>

datatype perm_error = InvalidOctalFormat | InvalidSymbolicFormat

text \<open>The test \<open>/^[0-7]{3}$/.test(octal)\<close>.\<close>

definition octal_format :: "string \<Rightarrow> bool" where
  "octal_format s = (length s = 3 \<and> list_all (\<lambda>c. c \<in> set ''01234567'') s)"

text \<open>The test \<open>/^[r-][w-][x-][r-][w-][x-][r-][w-][x-]$/.test(symbolic)\<close>.\<close>

definition symbolic_format :: "string \<Rightarrow> bool" where
  "symbolic_format s =
     (length s = 9 \<and> list_all2 (\<lambda>c p. c = p \<or> c = CHR ''-'') s ''rwxrwxrwx'')"

text \<open>\<open>Number\<close> on a one-character string holding a decimal digit.\<close>

definition Number_digit :: "char \<Rightarrow> nat" where
  "Number_digit c =
     (case map_of (zip ''0123456789'' [0, 1, 2, 3, 4, 5, 6, 7, 8, 9]) c of
        Some n \<Rightarrow> n | None \<Rightarrow> 0)"

text \<open>\<open>value.toString()\<close> for a number below ten.\<close>

definition digit_toString :: "nat \<Rightarrow> string" where
  "digit_toString v = [''0123456789'' ! v]"

text \<open>The truthiness of \<open>digit & m\<close>.\<close>

definition bit_set :: "nat \<Rightarrow> nat \<Rightarrow> bool" where
  "bit_set d m = (and d m \<noteq> 0)"

definition octal_group :: "nat \<Rightarrow> string" where
  "octal_group digit =
     (let read = (if bit_set digit 4 then ''r'' else ''-'');
          write = (if bit_set digit 2 then ''w'' else ''-'');
          execute = (if bit_set digit 1 then ''x'' else ''-'')
      in read @ write @ execute)"

definition octalToSymbolic :: "string \<Rightarrow> perm_error + string" where
  "octalToSymbolic octal =
     (if \<not> octal_format octal then Inl InvalidOctalFormat
      else Inr (concat (map octal_group (map Number_digit octal))))"

text \<open>
  One group of \<open>symbolicToOctal\<close>; \<open>group[i]\<close> beyond the end of the string is
  \<open>undefined\<close> in JavaScript and equal to no character.
\<close>

definition symbolic_group :: "string \<Rightarrow> string" where
  "symbolic_group g =
     (let v0 = (0::nat);
          v1 = (if 0 < length g \<and> g ! 0 = CHR ''r'' then v0 + 4 else v0);
          v2 = (if 1 < length g \<and> g ! 1 = CHR ''w'' then v1 + 2 else v1);
          v3 = (if 2 < length g \<and> g ! 2 = CHR ''x'' then v2 + 1 else v2)
      in digit_toString v3)"

definition symbolicToOctal :: "string \<Rightarrow> perm_error + string" where
  "symbolicToOctal symbolic =
     (if \<not> symbolic_format symbolic then Inl InvalidSymbolicFormat
      else Inr (concat (map symbolic_group
                  [slice 0 3 symbolic, slice 3 6 symbolic, slice 6 9 symbolic])))"

section \<open>FileTypeDetector: the text heuristic\<close>

text \<open>
  The quotient \<open>nonPrintable / sample.length\<close> of two non-negative integers as an IEEE
  double: \<open>0 / 0\<close> is NaN, \<open>k / 0\<close> for positive \<open>k\<close> is infinite, and otherwise the
  quotient is the double nearest to the fraction, kept here as the fraction itself.
\<close>

datatype js_quotient = NaN | PosInfinity | Fraction nat nat

definition js_divide :: "nat \<Rightarrow> nat \<Rightarrow> js_quotient" where
  "js_divide k n = (if n = 0 then (if k = 0 then NaN else PosInfinity) else Fraction k n)"

text \<open>
  The comparison \<open>q < 0.3\<close>. Every comparison with NaN is false. For a sample of at most
  8192 characters a fraction differs from three tenths by at least \<open>1 / 81920\<close> or not
  at all, so rounding the quotient and the literal \<open>0.3\<close> to doubles does not change
  the outcome of the comparison, which is the one of the exact fractions.
\<close>

fun less_than_0_3 :: "js_quotient \<Rightarrow> bool" where
  "less_than_0_3 NaN = False"
| "less_than_0_3 PosInfinity = False"
| "less_than_0_3 (Fraction k n) = (10 * k < 3 * n)"

text \<open>
  A file read with encoding \<open>binary\<close> gives one character per byte, whose char code is
  the byte.
\<close>

definition non_printable :: "byte \<Rightarrow> bool" where
  "non_printable char = (char < 32 \<and> char \<noteq> 9 \<and> char \<noteq> 10 \<and> char \<noteq> 13)"

text \<open>
  \<open>isTextFile\<close>, as a function of what \<open>readFile\<close> gives: \<open>None\<close> when reading fails,
  the bytes of the file otherwise.
\<close>

definition isTextFile :: "byte list option \<Rightarrow> bool" where
  "isTextFile content =
     (case content of
        None \<Rightarrow> False
      | Some buffer \<Rightarrow>
          (let sample = slice 0 8192 buffer;
               nonPrintable = length (filter non_printable sample)
           in less_than_0_3 (js_divide nonPrintable (length sample))))"

section \<open>FileTypeDetector: classification by extension and by content\<close>

text \<open>
  \<open>String.prototype.toLowerCase\<close> on characters with char codes below 256: the letters
  \<open>A\<close> to \<open>Z\<close> become \<open>a\<close> to \<open>z\<close>, the capital letters of Latin-1 (the char codes
  0xC0 to 0xDE but 0xD7, the multiplication sign) become the small ones, 32 higher, and
  every other character is kept. \<open>toUpperCase\<close> is applied to strings of hexadecimal
  digits only, where it turns \<open>a\<close> to \<open>f\<close> into \<open>A\<close> to \<open>F\<close>.
\<close>

definition lower_char :: "char \<Rightarrow> char" where
  "lower_char c =
     (case map_of (zip ''ABCDEFGHIJKLMNOPQRSTUVWXYZ'' ''abcdefghijklmnopqrstuvwxyz'') c of
        Some l \<Rightarrow> l
      | None \<Rightarrow>
          (let n = (of_char c :: nat)
           in if 192 \<le> n \<and> n \<le> 222 \<and> n \<noteq> 215 then char_of (n + 32) else c))"

definition upper_char :: "char \<Rightarrow> char" where
  "upper_char c =
     (case map_of (zip ''abcdefghijklmnopqrstuvwxyz'' ''ABCDEFGHIJKLMNOPQRSTUVWXYZ'') c of
        Some u \<Rightarrow> u | None \<Rightarrow> c)"

definition toLowerCase :: "string \<Rightarrow> string" where
  "toLowerCase s = map lower_char s"

definition toUpperCase :: "string \<Rightarrow> string" where
  "toUpperCase s = map upper_char s"

text \<open>
  \<open>path.extname\<close> of Node.js for POSIX paths. Trailing slashes are dropped and the last
  component of the path is taken; the extension runs from the last dot of that component
  to its end. It is empty if the component has no dot, if its last dot is its first
  character, or if the component is \<open>..\<close>.
\<close>

definition path_basename :: "string \<Rightarrow> string" where
  "path_basename p =
     rev (takeWhile (\<lambda>c. c \<noteq> CHR ''/'') (dropWhile (\<lambda>c. c = CHR ''/'') (rev p)))"

definition extname :: "string \<Rightarrow> string" where
  "extname p =
     (let base = path_basename p;
          ext = CHR ''.'' # rev (takeWhile (\<lambda>c. c \<noteq> CHR ''.'') (rev base));
          stem = rev (drop 1 (dropWhile (\<lambda>c. c \<noteq> CHR ''.'') (rev base)))
      in if CHR ''.'' \<notin> set base then ''''
         else if stem = '''' then ''''
         else if stem = ''.'' \<and> ext = ''.'' then ''''
         else ext)"

definition mimeTypes :: "(string \<times> string) list" where
  "mimeTypes =
    [(''.txt'', ''text/plain''), (''.md'', ''text/markdown''),
     (''.json'', ''application/json''), (''.xml'', ''application/xml''),
     (''.html'', ''text/html''), (''.htm'', ''text/html''), (''.css'', ''text/css''),
     (''.js'', ''application/javascript''), (''.ts'', ''application/typescript''),
     (''.jsx'', ''application/javascript''), (''.tsx'', ''application/typescript''),
     (''.py'', ''text/x-python''), (''.java'', ''text/x-java-source''),
     (''.cpp'', ''text/x-c++src''), (''.c'', ''text/x-csrc''), (''.h'', ''text/x-chdr''),
     (''.php'', ''application/x-httpd-php''), (''.rb'', ''application/x-ruby''),
     (''.go'', ''text/x-go''), (''.rs'', ''text/x-rust''), (''.sh'', ''application/x-sh''),
     (''.bat'', ''application/x-bat''), (''.ps1'', ''application/x-powershell''),
     (''.jpg'', ''image/jpeg''), (''.jpeg'', ''image/jpeg''), (''.png'', ''image/png''),
     (''.gif'', ''image/gif''), (''.bmp'', ''image/bmp''), (''.svg'', ''image/svg+xml''),
     (''.webp'', ''image/webp''), (''.ico'', ''image/x-icon''), (''.tiff'', ''image/tiff''),
     (''.tif'', ''image/tiff''), (''.mp3'', ''audio/mpeg''), (''.wav'', ''audio/wav''),
     (''.flac'', ''audio/flac''), (''.aac'', ''audio/aac''), (''.ogg'', ''audio/ogg''),
     (''.m4a'', ''audio/mp4''), (''.mp4'', ''video/mp4''), (''.avi'', ''video/x-msvideo''),
     (''.mov'', ''video/quicktime''), (''.wmv'', ''video/x-ms-wmv''),
     (''.flv'', ''video/x-flv''), (''.webm'', ''video/webm''),
     (''.mkv'', ''video/x-matroska''), (''.zip'', ''application/zip''),
     (''.rar'', ''application/vnd.rar''), (''.tar'', ''application/x-tar''),
     (''.gz'', ''application/gzip''), (''.7z'', ''application/x-7z-compressed''),
     (''.bz2'', ''application/x-bzip2''), (''.pdf'', ''application/pdf''),
     (''.doc'', ''application/msword''),
     (''.docx'', ''application/vnd.openxmlformats-officedocument.wordprocessingml.document''),
     (''.xls'', ''application/vnd.ms-excel''),
     (''.xlsx'', ''application/vnd.openxmlformats-officedocument.spreadsheetml.sheet''),
     (''.ppt'', ''application/vnd.ms-powerpoint''),
     (''.pptx'', ''application/vnd.openxmlformats-officedocument.presentationml.presentation''),
     (''.exe'', ''application/x-msdownload''), (''.msi'', ''application/x-msi''),
     (''.deb'', ''application/vnd.debian.binary-package''), (''.rpm'', ''application/x-rpm''),
     (''.dmg'', ''application/x-apple-diskimage''), (''.app'', ''application/x-apple-app'')]"

definition categories :: "(string \<times> string) list" where
  "categories =
    [(''.txt'', ''Text''), (''.md'', ''Documentation''), (''.json'', ''Data''),
     (''.xml'', ''Data''), (''.html'', ''Web''), (''.htm'', ''Web''), (''.css'', ''Web''),
     (''.js'', ''Code''), (''.ts'', ''Code''), (''.jsx'', ''Code''), (''.tsx'', ''Code''),
     (''.py'', ''Code''), (''.java'', ''Code''), (''.cpp'', ''Code''), (''.c'', ''Code''),
     (''.h'', ''Code''), (''.php'', ''Code''), (''.rb'', ''Code''), (''.go'', ''Code''),
     (''.rs'', ''Code''), (''.sh'', ''Script''), (''.bat'', ''Script''),
     (''.ps1'', ''Script''), (''.jpg'', ''Image''), (''.jpeg'', ''Image''),
     (''.png'', ''Image''), (''.gif'', ''Image''), (''.bmp'', ''Image''),
     (''.svg'', ''Image''), (''.webp'', ''Image''), (''.ico'', ''Image''),
     (''.tiff'', ''Image''), (''.tif'', ''Image''), (''.mp3'', ''Audio''),
     (''.wav'', ''Audio''), (''.flac'', ''Audio''), (''.aac'', ''Audio''),
     (''.ogg'', ''Audio''), (''.m4a'', ''Audio''), (''.mp4'', ''Video''),
     (''.avi'', ''Video''), (''.mov'', ''Video''), (''.wmv'', ''Video''),
     (''.flv'', ''Video''), (''.webm'', ''Video''), (''.mkv'', ''Video''),
     (''.zip'', ''Archive''), (''.rar'', ''Archive''), (''.tar'', ''Archive''),
     (''.gz'', ''Archive''), (''.7z'', ''Archive''), (''.bz2'', ''Archive''),
     (''.pdf'', ''Document''), (''.doc'', ''Document''), (''.docx'', ''Document''),
     (''.xls'', ''Document''), (''.xlsx'', ''Document''), (''.ppt'', ''Document''),
     (''.pptx'', ''Document''), (''.exe'', ''Executable''), (''.msi'', ''Executable''),
     (''.deb'', ''Executable''), (''.rpm'', ''Executable''), (''.dmg'', ''Executable''),
     (''.app'', ''Executable'')]"

definition descriptions :: "(string \<times> string) list" where
  "descriptions =
    [(''.txt'', ''Plain text file''), (''.md'', ''Markdown document''),
     (''.json'', ''JSON data file''), (''.xml'', ''XML document''),
     (''.html'', ''HTML web page''), (''.htm'', ''HTML web page''),
     (''.css'', ''CSS stylesheet''), (''.js'', ''JavaScript file''),
     (''.ts'', ''TypeScript file''), (''.jsx'', ''React JavaScript file''),
     (''.tsx'', ''React TypeScript file''), (''.py'', ''Python script''),
     (''.java'', ''Java source file''), (''.cpp'', ''C++ source file''),
     (''.c'', ''C source file''), (''.h'', ''C/C++ header file''), (''.php'', ''PHP script''),
     (''.rb'', ''Ruby script''), (''.go'', ''Go source file''),
     (''.rs'', ''Rust source file''), (''.sh'', ''Shell script''), (''.bat'', ''Batch file''),
     (''.ps1'', ''PowerShell script''), (''.jpg'', ''JPEG image''),
     (''.jpeg'', ''JPEG image''), (''.png'', ''PNG image''), (''.gif'', ''GIF image''),
     (''.bmp'', ''Bitmap image''), (''.svg'', ''SVG vector image''),
     (''.webp'', ''WebP image''), (''.ico'', ''Icon file''), (''.tiff'', ''TIFF image''),
     (''.tif'', ''TIFF image''), (''.mp3'', ''MP3 audio file''),
     (''.wav'', ''WAV audio file''), (''.flac'', ''FLAC audio file''),
     (''.aac'', ''AAC audio file''), (''.ogg'', ''OGG audio file''),
     (''.m4a'', ''M4A audio file''), (''.mp4'', ''MP4 video file''),
     (''.avi'', ''AVI video file''), (''.mov'', ''QuickTime video''),
     (''.wmv'', ''Windows Media video''), (''.flv'', ''Flash video''),
     (''.webm'', ''WebM video''), (''.mkv'', ''Matroska video''), (''.zip'', ''ZIP archive''),
     (''.rar'', ''RAR archive''), (''.tar'', ''TAR archive''),
     (''.gz'', ''Gzip compressed file''), (''.7z'', ''7-Zip archive''),
     (''.bz2'', ''Bzip2 compressed file''), (''.pdf'', ''PDF document''),
     (''.doc'', ''Word document''), (''.docx'', ''Word document''),
     (''.xls'', ''Excel spreadsheet''), (''.xlsx'', ''Excel spreadsheet''),
     (''.ppt'', ''PowerPoint presentation''), (''.pptx'', ''PowerPoint presentation''),
     (''.exe'', ''Windows executable''), (''.msi'', ''Windows installer''),
     (''.deb'', ''Debian package''), (''.rpm'', ''RPM package''),
     (''.dmg'', ''macOS disk image''), (''.app'', ''macOS application'')]"

definition binaryExtensions :: "string list" where
  "binaryExtensions =
    [''.exe'', ''.dll'', ''.so'', ''.dylib'', ''.bin'', ''.dat'', ''.jpg'', ''.jpeg'',
     ''.png'', ''.gif'', ''.bmp'', ''.ico'', ''.tiff'', ''.tif'', ''.webp'', ''.mp3'',
     ''.wav'', ''.flac'', ''.aac'', ''.ogg'', ''.m4a'', ''.mp4'', ''.avi'', ''.mov'',
     ''.wmv'', ''.flv'', ''.webm'', ''.mkv'', ''.zip'', ''.rar'', ''.tar'', ''.gz'', ''.7z'',
     ''.bz2'', ''.pdf'', ''.doc'', ''.docx'', ''.xls'', ''.xlsx'', ''.ppt'', ''.pptx'',
     ''.msi'', ''.deb'', ''.rpm'', ''.dmg'', ''.app'']"

definition executableExtensions :: "string list" where
  "executableExtensions =
    [''.exe'', ''.msi'', ''.deb'', ''.rpm'', ''.dmg'', ''.app'', ''.sh'', ''.bat'', ''.ps1'',
     ''.com'', ''.cmd'']"

text \<open>
  The object returned by \<open>detectMagicNumbers\<close>, and \<open>FileTypeInfo\<close>, which has the same
  four fields and seven more.
\<close>

record MagicInfo =
  mimeType :: string
  category :: string
  description :: string
  isBinary :: bool

record FileTypeInfo = MagicInfo +
  extension :: string
  isText :: bool
  isImage :: bool
  isVideo :: bool
  isAudio :: bool
  isArchive :: bool
  isExecutable :: bool

text \<open>A property read \<open>table[ext] || fallback\<close>; no value of the tables is empty.\<close>

definition lookup_or :: "(string \<times> string) list \<Rightarrow> string \<Rightarrow> string \<Rightarrow> string" where
  "lookup_or table ext fallback = (case map_of table ext of Some v \<Rightarrow> v | None \<Rightarrow> fallback)"

definition detectFromPath :: "string \<Rightarrow> FileTypeInfo" where
  "detectFromPath filePath =
     (let ext = toLowerCase (extname filePath)
      in \<lparr> mimeType = lookup_or mimeTypes ext ''application/octet-stream'',
           category = lookup_or categories ext ''Unknown'',
           description = lookup_or descriptions ext ''Unknown file type'',
           isBinary = (ext \<in> set binaryExtensions),
           extension = ext,
           isText = (ext \<notin> set binaryExtensions),
           isImage = (map_of categories ext = Some ''Image''),
           isVideo = (map_of categories ext = Some ''Video''),
           isAudio = (map_of categories ext = Some ''Audio''),
           isArchive = (map_of categories ext = Some ''Archive''),
           isExecutable = (ext \<in> set executableExtensions) \<rparr>)"

text \<open>\<open>buffer.toString('hex')\<close>: two lower-case hexadecimal digits for each byte.\<close>

definition hex_byte :: "byte \<Rightarrow> string" where
  "hex_byte b = [''0123456789abcdef'' ! (unat b div 16), ''0123456789abcdef'' ! (unat b mod 16)]"

definition toString_hex :: "byte list \<Rightarrow> string" where
  "toString_hex buffer = concat (map hex_byte buffer)"

definition magic :: "string \<Rightarrow> string \<Rightarrow> string \<Rightarrow> MagicInfo" where
  "magic m c d = \<lparr> mimeType = m, category = c, description = d, isBinary = True \<rparr>"

definition detectMagicNumbers :: "byte list \<Rightarrow> MagicInfo option" where
  "detectMagicNumbers buffer =
     (if length buffer < 4 then None
      else let hex = toUpperCase (toString_hex (take 16 buffer)) in
        if startsWith hex ''FFD8FF'' then Some (magic ''image/jpeg'' ''Image'' ''JPEG image'')
        else if startsWith hex ''89504E47''
          then Some (magic ''image/png'' ''Image'' ''PNG image'')
        else if startsWith hex ''47494638''
          then Some (magic ''image/gif'' ''Image'' ''GIF image'')
        else if startsWith hex ''424D'' then Some (magic ''image/bmp'' ''Image'' ''BMP image'')
        else if startsWith hex ''52494646'' \<and> includes_str hex ''57454250''
          then Some (magic ''image/webp'' ''Image'' ''WebP image'')
        else if startsWith hex ''504B0304'' \<or> startsWith hex ''504B0506''
                \<or> startsWith hex ''504B0708''
          then Some (magic ''application/zip'' ''Archive'' ''ZIP archive'')
        else if startsWith hex ''526172211A07''
          then Some (magic ''application/vnd.rar'' ''Archive'' ''RAR archive'')
        else if startsWith hex ''377ABCAF271C''
          then Some (magic ''application/x-7z-compressed'' ''Archive'' ''7-Zip archive'')
        else if startsWith hex ''1F8B''
          then Some (magic ''application/gzip'' ''Archive'' ''Gzip compressed file'')
        else if startsWith hex ''25504446''
          then Some (magic ''application/pdf'' ''Document'' ''PDF document'')
        else if startsWith hex ''4D5A''
          then Some (magic ''application/x-msdownload'' ''Executable'' ''Windows executable'')
        else if startsWith hex ''494433'' \<or> startsWith hex ''FFFB''
                \<or> startsWith hex ''FFF3'' \<or> startsWith hex ''FFF2''
          then Some (magic ''audio/mpeg'' ''Audio'' ''MP3 audio file'')
        else if startsWith hex ''52494646'' \<and> includes_str hex ''57415645''
          then Some (magic ''audio/wav'' ''Audio'' ''WAV audio file'')
        else if includes_str hex ''667479706D703432'' \<or> includes_str hex ''667479706D703431''
          then Some (magic ''video/mp4'' ''Video'' ''MP4 video file'')
        else if startsWith hex ''52494646'' \<and> includes_str hex ''415649''
          then Some (magic ''video/x-msvideo'' ''Video'' ''AVI video file'')
        else None)"

text \<open>
  \<open>detectFromContent\<close>, as a function of the path and of what \<open>readFile\<close> gives: \<open>None\<close>
  when reading fails, which the \<open>catch\<close> block turns into the extension-based result.
\<close>

definition detectFromContent :: "string \<Rightarrow> byte list option \<Rightarrow> FileTypeInfo" where
  "detectFromContent filePath content =
     (let baseInfo = detectFromPath filePath
      in case content of
           None \<Rightarrow> baseInfo
         | Some buffer \<Rightarrow>
             (case detectMagicNumbers buffer of
                Some magicInfo \<Rightarrow>
                  baseInfo \<lparr> mimeType := mimeType magicInfo,
                             category := category magicInfo,
                             description := description magicInfo,
                             isBinary := isBinary magicInfo,
                             isText := \<not> isBinary magicInfo,
                             isImage := (category magicInfo = ''Image''),
                             isVideo := (category magicInfo = ''Video''),
                             isAudio := (category magicInfo = ''Audio''),
                             isArchive := (category magicInfo = ''Archive'') \<rparr>
              | None \<Rightarrow> baseInfo))"

section \<open>FileSearch: the file system seen by a walk\<close>

text \<open>
  The part of the file system below the search root, as path resolution shows it during
  one walk: a finite tree. A directory lists its entries in the order \<open>readdir\<close> returns
  them and may be unreadable; a symbolic link carries what its target resolves to; an
  entry may be neither a file nor a directory (a socket, a device); and an entry may be
  inaccessible, so that \<open>stat\<close> fails on it (it vanished, access is denied, or it is a
  link whose target does not exist).
\<close>

record Attrs =
  a_size :: nat
  a_birthtime :: int
  a_mtime :: int
  a_atime :: int

datatype node =
    File Attrs
  | Directory Attrs bool "(string \<times> node) list"
  | SymbolicLink node
  | Special Attrs
  | Inaccessible

datatype fs_error = ENOENT | EACCES | ENOTDIR | SyntaxError

text \<open>
  The \<open>fs.Stats\<close> object. \<open>fs.stat\<close> follows symbolic links, as \<open>stat(2)\<close> does: it
  describes the target of a link, and \<open>isSymbolicLink()\<close> is false on everything it
  returns (only \<open>fs.lstat\<close> describes a link itself).
\<close>

record Stats =
  st_size :: nat
  st_birthtime :: int
  st_mtime :: int
  st_atime :: int
  st_isFile :: bool
  st_isDirectory :: bool
  st_isSymbolicLink :: bool

definition mk_stats :: "Attrs \<Rightarrow> bool \<Rightarrow> bool \<Rightarrow> Stats" where
  "mk_stats a f d =
     \<lparr> st_size = a_size a, st_birthtime = a_birthtime a, st_mtime = a_mtime a,
       st_atime = a_atime a, st_isFile = f, st_isDirectory = d, st_isSymbolicLink = False \<rparr>"

fun stat :: "node \<Rightarrow> fs_error + Stats" where
  "stat (File a) = Inr (mk_stats a True False)"
| "stat (Directory a readable entries) = Inr (mk_stats a False True)"
| "stat (SymbolicLink target) = stat target"
| "stat (Special a) = Inr (mk_stats a False False)"
| "stat Inaccessible = Inl ENOENT"

text \<open>
  \<open>fs.readdir\<close> follows symbolic links too. It returns the names of the entries; the
  model returns each name with the node that the path of the entry resolves to.
\<close>

fun readdir :: "node \<Rightarrow> fs_error + (string \<times> node) list" where
  "readdir (File a) = Inl ENOTDIR"
| "readdir (Directory a readable entries) = (if readable then Inr entries else Inl EACCES)"
| "readdir (SymbolicLink target) = readdir target"
| "readdir (Special a) = Inl ENOTDIR"
| "readdir Inaccessible = Inl ENOENT"

text \<open>
  \<open>path.join(currentPath, item)\<close> for the name of a directory entry. The normalisation
  that \<open>path.join\<close> performs on \<open>currentPath\<close> is not modelled.
\<close>

definition path_join :: "string \<Rightarrow> string \<Rightarrow> string" where
  "path_join currentPath item = currentPath @ ''/'' @ item"

section \<open>FileSearch: regular expressions\<close>

text \<open>
  \<open>new RegExp(source)\<close> either throws a \<open>SyntaxError\<close> (\<open>None\<close>) or gives an object whose
  \<open>test\<close> method is a predicate on strings. The search is modelled for any such engine.
\<close>

type_synonym regexp_engine = "string \<Rightarrow> (string \<Rightarrow> bool) option"

text \<open>
  The fragment of the regular expressions of JavaScript that the evaluations below
  use: a source \<open>^\<close>\<dots>\<open>$\<close> whose body is a sequence of atoms, each followed by \<open>*\<close>,
  by \<open>+\<close> or by nothing. An atom is a dot, which matches every character but a line
  feed and a carriage return, an ordinary character, or a backslash followed by a syntax
  character, both of which match that character only. A quantifier with nothing to
  repeat is a syntax error. Outside this fragment the function says nothing of the
  engine of JavaScript (it answers \<open>None\<close>).
\<close>

datatype atom = Lit char | AnyChar

datatype quantifier = Once | Star | Plus

definition syntax_chars :: "string" where
  "syntax_chars = CHR 0x5C # ''^$.*+?()[]{}|/''"

fun parse_quantifier :: "string \<Rightarrow> quantifier \<times> string" where
  "parse_quantifier (c # rest) =
     (if c = CHR ''*'' then (Star, rest) else if c = CHR ''+'' then (Plus, rest)
      else (Once, c # rest))"
| "parse_quantifier [] = (Once, [])"

fun parse_atom :: "string \<Rightarrow> (atom \<times> string) option" where
  "parse_atom [] = None"
| "parse_atom (c # rest) =
     (if c = CHR 0x5C
      then (case rest of
              [] \<Rightarrow> None
            | e # rest' \<Rightarrow> if e \<in> set syntax_chars then Some (Lit e, rest') else None)
      else if c = CHR ''.'' then Some (AnyChar, rest)
      else if c \<in> set syntax_chars then None
      else Some (Lit c, rest))"

lemma parse_quantifier_length:
  "length (snd (parse_quantifier s)) \<le> length s"
  by (cases s) simp_all

lemma parse_atom_length:
  "parse_atom s = Some (a, r) \<Longrightarrow> length r < length s"
  by (cases s) (auto split: if_splits list.splits)

function parse_body :: "string \<Rightarrow> (atom \<times> quantifier) list option" where
  "parse_body s =
     (if s = ''$'' then Some []
      else
        (case parse_atom s of
           None \<Rightarrow> None
         | Some (a, rest1) \<Rightarrow>
             (case parse_body (snd (parse_quantifier rest1)) of
                None \<Rightarrow> None
              | Some items \<Rightarrow> Some ((a, fst (parse_quantifier rest1)) # items))))"
  by pat_completeness auto
termination
proof (relation "measure length")
  show "wf (measure length)"
    by simp
next
  fix s :: string and x2 :: "atom \<times> string" and a :: atom and rest1 :: string
  assume "parse_atom s = Some x2" and "(a, rest1) = x2"
  then have "length rest1 < length s"
    by (auto dest: parse_atom_length)
  moreover have "length (snd (parse_quantifier rest1)) \<le> length rest1"
    by (rule parse_quantifier_length)
  ultimately show "(snd (parse_quantifier rest1), s) \<in> measure length"
    by simp
qed

declare parse_body.simps [simp del]

fun atom_matches :: "atom \<Rightarrow> char \<Rightarrow> bool" where
  "atom_matches (Lit l) c = (c = l)"
| "atom_matches AnyChar c = (c \<noteq> CHR 0x0A \<and> c \<noteq> CHR 0x0D)"

fun matches :: "(atom \<times> quantifier) list \<Rightarrow> string \<Rightarrow> bool" where
  "matches [] s = (s = [])"
| "matches ((a, Once) # items) [] = False"
| "matches ((a, Once) # items) (c # s) = (atom_matches a c \<and> matches items s)"
| "matches ((a, Star) # items) [] = matches items []"
| "matches ((a, Star) # items) (c # s) =
     (matches items (c # s) \<or> (atom_matches a c \<and> matches ((a, Star) # items) s))"
| "matches ((a, Plus) # items) [] = False"
| "matches ((a, Plus) # items) (c # s) = (atom_matches a c \<and> matches ((a, Star) # items) s)"

definition js_regexp :: regexp_engine where
  "js_regexp source =
     (case source of
        [] \<Rightarrow> None
      | c # body \<Rightarrow>
          if c = CHR ''^''
          then (case parse_body body of None \<Rightarrow> None | Some items \<Rightarrow> Some (matches items))
          else None)"

section \<open>FileSearch: options, entries and filters\<close>

text \<open>
  A pattern is a glob-like string or a \<open>RegExp\<close> object, of which only the \<open>test\<close>
  method is used (an object without the flags \<open>g\<close> and \<open>y\<close>, whose \<open>test\<close> depends on
  its argument only).
\<close>

datatype pattern = Glob string | RegExp "string \<Rightarrow> bool"

text \<open>
  \<open>SearchOptions\<close>. Every field is optional in the source; an absent flag behaves as
  \<open>false\<close> in each place where the flags are read, so the three flags are plain booleans
  here. Sizes are non-negative integers, depths are integers and dates are their time
  values in milliseconds.
\<close>

record SearchOptions =
  pattern :: "pattern option"
  extensions :: "string list option"
  maxDepth :: "int option"
  includeHidden :: bool
  caseSensitive :: bool
  followSymlinks :: bool
  maxSize :: "nat option"
  minSize :: "nat option"
  modifiedSince :: "int option"
  modifiedBefore :: "int option"

record FileInfo =
  path :: string
  name :: string
  extension :: string
  size_bytes :: nat
  isDirectory :: bool
  isFile :: bool
  createdAt :: int
  modifiedAt :: int
  accessedAt :: int

record SearchResult =
  files :: "FileInfo list"
  directories :: "FileInfo list"
  totalFiles :: nat
  totalDirectories :: nat
  totalSize :: nat

text \<open>
  \<open>getFileInfo\<close>; the second argument is the node that \<open>filePath\<close> resolves to. The
  \<open>base\<close> and \<open>ext\<close> of \<open>path.parse\<close> are the last component of the path and its
  extension.
\<close>

definition getFileInfo :: "string \<Rightarrow> node \<Rightarrow> fs_error + FileInfo" where
  "getFileInfo filePath n =
     (case stat n of
        Inl e \<Rightarrow> Inl e
      | Inr stats \<Rightarrow>
          Inr \<lparr> path = filePath,
                name = path_basename filePath,
                extension = extname filePath,
                size_bytes = st_size stats,
                isDirectory = st_isDirectory stats,
                isFile = st_isFile stats,
                createdAt = st_birthtime stats,
                modifiedAt = st_mtime stats,
                accessedAt = st_atime stats \<rparr>)"

text \<open>\<open>s.replace(/c/g, r)\<close> for a single character \<open>c\<close>.\<close>

definition replace_all :: "char \<Rightarrow> string \<Rightarrow> string \<Rightarrow> string" where
  "replace_all c r s = concat (map (\<lambda>x. if x = c then r else [x]) s)"

text \<open>The source of the regular expression that \<open>matchesPattern\<close> builds.\<close>

definition regexPattern :: "string \<Rightarrow> string" where
  "regexPattern targetPattern =
     replace_all CHR ''?'' ''.''
       (replace_all CHR ''*'' ''.*''
         (replace_all CHR ''.'' [CHR 0x5C, CHR ''.''] targetPattern))"

definition matchesPattern ::
    "regexp_engine \<Rightarrow> string \<Rightarrow> pattern \<Rightarrow> bool \<Rightarrow> fs_error + bool" where
  "matchesPattern rx filename pat caseSens =
     (case pat of
        RegExp test \<Rightarrow> Inr (test filename)
      | Glob p \<Rightarrow>
          (let targetName = (if caseSens then filename else toLowerCase filename);
               targetPattern = (if caseSens then p else toLowerCase p)
           in case rx (''^'' @ regexPattern targetPattern @ ''$'') of
                None \<Rightarrow> Inl SyntaxError
              | Some test \<Rightarrow> Inr (test targetName)))"

text \<open>\<open>options.pattern || '*'\<close>: an absent pattern and the empty string give \<open>*\<close>.\<close>

definition pattern_or_star :: "SearchOptions \<Rightarrow> pattern" where
  "pattern_or_star options =
     (case pattern options of
        None \<Rightarrow> Glob ''*''
      | Some (Glob p) \<Rightarrow> if p = '''' then Glob ''*'' else Glob p
      | Some (RegExp test) \<Rightarrow> RegExp test)"

text \<open>
  \<open>matchesOptions\<close>. A size bound of zero is falsy and filters nothing. The configured
  extensions are lower-cased for the test of the leading dot only; the list that is
  searched holds them as they were given.
\<close>

definition matchesOptions :: "FileInfo \<Rightarrow> SearchOptions \<Rightarrow> bool" where
  "matchesOptions fileInfo options =
     (if (case extensions options of
            None \<Rightarrow> False
          | Some es \<Rightarrow>
              0 < length es \<and>
              (let ext = toLowerCase (extension fileInfo);
                   exts = map (\<lambda>e. if startsWith (toLowerCase e) ''.'' then e else ''.'' @ e) es
               in ext \<notin> set exts))
      then False
      else if (case maxSize options of
                 None \<Rightarrow> False | Some m \<Rightarrow> m \<noteq> 0 \<and> size_bytes fileInfo > m)
      then False
      else if (case minSize options of
                 None \<Rightarrow> False | Some m \<Rightarrow> m \<noteq> 0 \<and> size_bytes fileInfo < m)
      then False
      else if (case modifiedSince options of
                 None \<Rightarrow> False | Some t \<Rightarrow> modifiedAt fileInfo < t)
      then False
      else if (case modifiedBefore options of
                 None \<Rightarrow> False | Some t \<Rightarrow> modifiedAt fileInfo > t)
      then False
      else True)"

section \<open>FileSearch: the walk\<close>

text \<open>
  The two arrays that the walk fills, \<open>files\<close> and \<open>directories\<close>, are passed along and
  returned. A call of \<open>searchRecursive\<close> ends with the arrays as they are then, and either
  normally (\<open>None\<close>) or with an exception; the \<open>catch\<close> blocks of the source are the
  branches that turn an error into a normal end. \<open>searchItems\<close> is the \<open>for\<close> loop over
  the entries of one directory, and \<open>searchItem\<close> is the body of the inner \<open>try\<close> block
  with the arrays it leaves behind.
\<close>

type_synonym found = "FileInfo list \<times> FileInfo list"

definition push_file :: "FileInfo \<Rightarrow> found \<Rightarrow> found" where
  "push_file fileInfo acc = (fst acc @ [fileInfo], snd acc)"

definition push_directory :: "FileInfo \<Rightarrow> found \<Rightarrow> found" where
  "push_directory fileInfo acc = (fst acc, snd acc @ [fileInfo])"

lemma readdir_size:
  "readdir n = Inr entries \<Longrightarrow> size_list (\<lambda>p. size (snd p)) entries < size n"
proof (induction n)
  case (Directory a readable es)
  have "size_list (size_prod (\<lambda>x. 0) size) es = size_list (\<lambda>p. size (snd p)) es + length es"
    by (induction es) (auto simp: size_prod_simp)
  with Directory.prems show ?case
    by (auto split: if_splits)
qed auto

function
  searchRecursive ::
    "regexp_engine \<Rightarrow> string \<Rightarrow> SearchOptions \<Rightarrow> node \<Rightarrow> found \<Rightarrow> int
       \<Rightarrow> fs_error option \<times> found"
and searchItems ::
    "regexp_engine \<Rightarrow> string \<Rightarrow> SearchOptions \<Rightarrow> (string \<times> node) list \<Rightarrow> found \<Rightarrow> int
       \<Rightarrow> found"
and searchItem ::
    "regexp_engine \<Rightarrow> string \<Rightarrow> SearchOptions \<Rightarrow> node \<Rightarrow> found \<Rightarrow> int
       \<Rightarrow> fs_error option \<times> found"
where
  "searchRecursive rx currentPath options n acc currentDepth =
     (if (case maxDepth options of None \<Rightarrow> False | Some m \<Rightarrow> currentDepth > m)
      then (None, acc)
      else
        (case readdir n of
           Inl e \<Rightarrow> (None, acc)
         | Inr items \<Rightarrow> (None, searchItems rx currentPath options items acc currentDepth)))"
| "searchItems rx currentPath options [] acc currentDepth = acc"
| "searchItems rx currentPath options ((item, child) # rest) acc currentDepth =
     (if \<not> includeHidden options \<and> startsWith item ''.''
      then searchItems rx currentPath options rest acc currentDepth
      else
        searchItems rx currentPath options rest
          (snd (searchItem rx (path_join currentPath item) options child acc currentDepth))
          currentDepth)"
| "searchItem rx itemPath options child acc currentDepth =
     (case getFileInfo itemPath child of
        Inl e \<Rightarrow> (Some e, acc)
      | Inr fileInfo \<Rightarrow>
          (case (if followSymlinks options then Inr False
                 else map_sum id st_isSymbolicLink (stat child)) of
             Inl e \<Rightarrow> (Some e, acc)
           | Inr True \<Rightarrow> (None, acc)
           | Inr False \<Rightarrow>
               if isDirectory fileInfo then
                 (case matchesPattern rx (name fileInfo) (pattern_or_star options)
                         (caseSensitive options) of
                    Inl e \<Rightarrow> (Some e, acc)
                  | Inr m \<Rightarrow>
                      searchRecursive rx itemPath options child
                        (if m then push_directory fileInfo acc else acc) (currentDepth + 1))
               else if isFile fileInfo then
                 (case matchesPattern rx (name fileInfo) (pattern_or_star options)
                         (caseSensitive options) of
                    Inl e \<Rightarrow> (Some e, acc)
                  | Inr m \<Rightarrow>
                      (None, if m \<and> matchesOptions fileInfo options
                             then push_file fileInfo acc else acc))
               else (None, acc)))"
  by pat_completeness auto
termination
  by (relation "measure (\<lambda>x. case x of
        Inl (rx, p, opts, n, acc, d) \<Rightarrow> 3 * size n + 1
      | Inr (Inl (rx, p, opts, items, acc, d)) \<Rightarrow> 3 * size_list (\<lambda>p. size (snd p)) items + 2
      | Inr (Inr (rx, p, opts, n, acc, d)) \<Rightarrow> 3 * size n + 2)")
    (auto dest: readdir_size)

declare searchRecursive.simps [simp del]
declare searchItem.simps [simp del]

definition search ::
    "regexp_engine \<Rightarrow> node \<Rightarrow> string \<Rightarrow> SearchOptions \<Rightarrow> fs_error + SearchResult" where
  "search rx root searchPath options =
     (case searchRecursive rx searchPath options root ([], []) 0 of
        (Some e, acc) \<Rightarrow> Inl e
      | (None, acc) \<Rightarrow>
          Inr \<lparr> files = fst acc,
                directories = snd acc,
                totalFiles = length (fst acc),
                totalDirectories = length (snd acc),
                totalSize = foldl (\<lambda>sum file. sum + size_bytes file) 0 (fst acc) \<rparr>)"

text \<open>The options of a call \<open>search(path)\<close> or \<open>search(path, {})\<close>.\<close>

definition no_options :: SearchOptions where
  "no_options =
     \<lparr> pattern = None, extensions = None, maxDepth = None, includeHidden = False,
       caseSensitive = False, followSymlinks = False, maxSize = None, minSize = None,
       modifiedSince = None, modifiedBefore = None \<rparr>"

text \<open>Entries for the examples: attributes with the given size and all times zero.\<close>

definition plain :: "nat \<Rightarrow> Attrs" where
  "plain n = \<lparr> a_size = n, a_birthtime = 0, a_mtime = 0, a_atime = 0 \<rparr>"

section \<open>Properties of the permission strings\<close>

lemma Number_digit_simps:
  "Number_digit CHR ''0'' = 0" "Number_digit CHR ''1'' = Suc 0" "Number_digit CHR ''2'' = 2"
  "Number_digit CHR ''3'' = 3" "Number_digit CHR ''4'' = 4" "Number_digit CHR ''5'' = 5"
  "Number_digit CHR ''6'' = 6" "Number_digit CHR ''7'' = 7"
  by (simp_all add: Number_digit_def)

lemma octal_group_simps:
  "octal_group 0 = ''---''" "octal_group (Suc 0) = ''--x''" "octal_group 2 = ''-w-''"
  "octal_group 3 = ''-wx''" "octal_group 4 = ''r--''" "octal_group 5 = ''r-x''"
  "octal_group 6 = ''rw-''" "octal_group 7 = ''rwx''"
  by (simp_all add: octal_group_def bit_set_def)

lemma symbolic_group_simps:
  "symbolic_group ''---'' = ''0''" "symbolic_group ''--x'' = ''1''"
  "symbolic_group ''-w-'' = ''2''" "symbolic_group ''-wx'' = ''3''"
  "symbolic_group ''r--'' = ''4''" "symbolic_group ''r-x'' = ''5''"
  "symbolic_group ''rw-'' = ''6''" "symbolic_group ''rwx'' = ''7''"
  by (simp_all add: symbolic_group_def digit_toString_def)

lemma symbolic_group_of_octal_group:
  assumes "c \<in> set ''01234567''"
  shows "symbolic_group (octal_group (Number_digit c)) = [c]"
  using assms by (auto simp: Number_digit_simps octal_group_simps symbolic_group_simps)

lemma octal_group_format:
  assumes "c \<in> set ''01234567''"
  shows "list_all2 (\<lambda>c p. c = p \<or> c = CHR ''-'') (octal_group (Number_digit c)) ''rwx''"
  using assms by (auto simp: Number_digit_simps octal_group_simps)

lemma octal_group_of_symbolic_group:
  assumes "a = CHR ''r'' \<or> a = CHR ''-''" "b = CHR ''w'' \<or> b = CHR ''-''"
    and "c = CHR ''x'' \<or> c = CHR ''-''"
  shows "\<exists>d. d \<in> set ''01234567'' \<and> symbolic_group [a, b, c] = [d]
           \<and> octal_group (Number_digit d) = [a, b, c]"
  using assms
  by (elim disjE; simp add: Number_digit_simps octal_group_simps symbolic_group_simps)

lemma length_3_cases:
  assumes "length s = 3"
  obtains a b c where "s = [a, b, c]"
  using assms by (auto simp: length_Suc_conv numeral_3_eq_3)

lemma length_9_cases:
  assumes "length s = 9"
  obtains a b c d e f g h i where "s = [a, b, c, d, e, f, g, h, i]"
proof -
  have "length s = Suc (Suc (Suc (Suc (Suc (Suc (Suc (Suc (Suc 0))))))))"
    using assms by simp
  then show thesis
    using that by (auto simp: length_Suc_conv)
qed

lemma octal_then_symbolic:
  assumes "octal_format t"
  shows "\<exists>s. octalToSymbolic t = Inr s \<and> symbolicToOctal s = Inr t"
proof -
  from assms have len: "length t = 3" and digits: "list_all (\<lambda>c. c \<in> set ''01234567'') t"
    by (simp_all add: octal_format_def)
  from len obtain a b c where t: "t = [a, b, c]"
    by (rule length_3_cases)
  from digits t have a: "a \<in> set ''01234567''" and b: "b \<in> set ''01234567''"
    and c: "c \<in> set ''01234567''"
    by simp_all
  let ?ga = "octal_group (Number_digit a)"
  let ?gb = "octal_group (Number_digit b)"
  let ?gc = "octal_group (Number_digit c)"
  have fa: "list_all2 (\<lambda>c p. c = p \<or> c = CHR ''-'') ?ga ''rwx''"
    and fb: "list_all2 (\<lambda>c p. c = p \<or> c = CHR ''-'') ?gb ''rwx''"
    and fc: "list_all2 (\<lambda>c p. c = p \<or> c = CHR ''-'') ?gc ''rwx''"
    using a b c by (simp_all only: octal_group_format)
  have la: "length ?ga = 3" and lb: "length ?gb = 3" and lc: "length ?gc = 3"
    using fa fb fc by (auto dest: list_all2_lengthD)
  have out: "octalToSymbolic t = Inr (?ga @ ?gb @ ?gc)"
    using assms by (simp add: octalToSymbolic_def t)
  have "list_all2 (\<lambda>c p. c = p \<or> c = CHR ''-'') (?ga @ ?gb @ ?gc) (''rwx'' @ ''rwx'' @ ''rwx'')"
    using fa fb fc by (intro list_all2_appendI)
  then have fmt: "symbolic_format (?ga @ ?gb @ ?gc)"
    using la lb lc by (simp add: symbolic_format_def)
  have s0: "slice 0 3 (?ga @ ?gb @ ?gc) = ?ga"
    and s1: "slice 3 6 (?ga @ ?gb @ ?gc) = ?gb"
    and s2: "slice 6 9 (?ga @ ?gb @ ?gc) = ?gc"
    using la lb lc by (simp_all add: slice_def)
  have "symbolicToOctal (?ga @ ?gb @ ?gc) = Inr t"
    using fmt a b c
    by (simp add: symbolicToOctal_def s0 s1 s2 t symbolic_group_of_octal_group
        del: set_simps list.set)
  with out show ?thesis by blast
qed

lemma symbolic_then_octal:
  assumes "symbolic_format s"
  shows "\<exists>t. symbolicToOctal s = Inr t \<and> octalToSymbolic t = Inr s"
proof -
  from assms have len: "length s = 9"
    and fmt: "list_all2 (\<lambda>c p. c = p \<or> c = CHR ''-'') s ''rwxrwxrwx''"
    by (simp_all add: symbolic_format_def)
  from len obtain a b c d e f g h i where s: "s = [a, b, c, d, e, f, g, h, i]"
    by (rule length_9_cases)
  from fmt s have ca: "a = CHR ''r'' \<or> a = CHR ''-''" and cb: "b = CHR ''w'' \<or> b = CHR ''-''"
    and cc: "c = CHR ''x'' \<or> c = CHR ''-''" and cd: "d = CHR ''r'' \<or> d = CHR ''-''"
    and ce: "e = CHR ''w'' \<or> e = CHR ''-''" and cf: "f = CHR ''x'' \<or> f = CHR ''-''"
    and cg: "g = CHR ''r'' \<or> g = CHR ''-''" and ch: "h = CHR ''w'' \<or> h = CHR ''-''"
    and ci: "i = CHR ''x'' \<or> i = CHR ''-''"
    by simp_all
  from octal_group_of_symbolic_group [OF ca cb cc]
  obtain x where x: "x \<in> set ''01234567''" "symbolic_group [a, b, c] = [x]"
    "octal_group (Number_digit x) = [a, b, c]"
    by blast
  from octal_group_of_symbolic_group [OF cd ce cf]
  obtain y where y: "y \<in> set ''01234567''" "symbolic_group [d, e, f] = [y]"
    "octal_group (Number_digit y) = [d, e, f]"
    by blast
  from octal_group_of_symbolic_group [OF cg ch ci]
  obtain z where z: "z \<in> set ''01234567''" "symbolic_group [g, h, i] = [z]"
    "octal_group (Number_digit z) = [g, h, i]"
    by blast
  have "symbolicToOctal s = Inr [x, y, z]"
    using assms by (simp add: symbolicToOctal_def s slice_def x(2) y(2) z(2))
  moreover have "octal_format [x, y, z]"
    using x(1) y(1) z(1) by (simp add: octal_format_def del: set_simps list.set)
  then have "octalToSymbolic [x, y, z] = Inr s"
    by (simp add: octalToSymbolic_def s x(3) y(3) z(3))
  ultimately show ?thesis by blast
qed

text \<open>
  Claim C9. \<open>octalToSymbolic\<close> and \<open>symbolicToOctal\<close> are inverse to each other: every
  nine-character string of the form \<open>rwxrwxrwx\<close> with any of its letters replaced by a
  dash is converted to a three-digit octal string which converts back to it, and every
  string of three octal digits is converted to such a symbolic string which converts
  back to it. Neither conversion raises on these inputs.
\<close>

theorem octal_symbolic_inverse:
  "(length s = 9 \<and> list_all2 (\<lambda>c p. c = p \<or> c = CHR ''-'') s ''rwxrwxrwx''
      \<longrightarrow> (\<exists>t. symbolicToOctal s = Inr t \<and> octalToSymbolic t = Inr s)) \<and>
   (length t = 3 \<and> set t \<subseteq> set ''01234567''
      \<longrightarrow> (\<exists>s. octalToSymbolic t = Inr s \<and> symbolicToOctal s = Inr t))"
proof (intro conjI impI)
  assume "length s = 9 \<and> list_all2 (\<lambda>c p. c = p \<or> c = CHR ''-'') s ''rwxrwxrwx''"
  then have "symbolic_format s"
    by (simp add: symbolic_format_def)
  then show "\<exists>t. symbolicToOctal s = Inr t \<and> octalToSymbolic t = Inr s"
    by (rule symbolic_then_octal)
next
  assume "length t = 3 \<and> set t \<subseteq> set ''01234567''"
  then have "octal_format t"
    unfolding octal_format_def list_all_iff by blast
  then show "\<exists>s. octalToSymbolic t = Inr s \<and> symbolicToOctal s = Inr t"
    by (rule octal_then_symbolic)
qed

theorem octal_symbolic_inverse_witness:
  "symbolicToOctal ''rwxr-xr--'' = Inr ''754'' \<and> octalToSymbolic ''754'' = Inr ''rwxr-xr--''
   \<and> octalToSymbolic ''640'' = Inr ''rw-r-----'' \<and> symbolicToOctal ''rw-r-----'' = Inr ''640''"
proof -
  have a: "symbolicToOctal ''rwxr-xr--'' = Inr ''754''"
    by (simp add: symbolicToOctal_def symbolic_format_def slice_def symbolic_group_simps)
  have b: "octalToSymbolic ''640'' = Inr ''rw-r-----''"
    by (simp add: octalToSymbolic_def octal_format_def Number_digit_simps octal_group_simps)
  have "length ''rwxr-xr--'' = 9
      \<and> list_all2 (\<lambda>c p. c = p \<or> c = CHR ''-'') ''rwxr-xr--'' ''rwxrwxrwx''"
    by simp
  with octal_symbolic_inverse [of "''rwxr-xr--''" "''640''"]
  have "\<exists>t. symbolicToOctal ''rwxr-xr--'' = Inr t \<and> octalToSymbolic t = Inr ''rwxr-xr--''"
    by blast
  with a have c: "octalToSymbolic ''754'' = Inr ''rwxr-xr--''"
    by auto
  have "length ''640'' = 3 \<and> set ''640'' \<subseteq> set ''01234567''"
    by simp
  with octal_symbolic_inverse [of "''rwxr-xr--''" "''640''"]
  have "\<exists>s. octalToSymbolic ''640'' = Inr s \<and> symbolicToOctal s = Inr ''640''"
    by blast
  with b have d: "symbolicToOctal ''rw-r-----'' = Inr ''640''"
    by auto
  from a b c d show ?thesis by blast
qed

section \<open>Properties of the text heuristic\<close>

text \<open>
  Claim C10. \<open>isTextFile\<close> returns false for a readable file of zero bytes: the sample is
  empty, the fraction of non-printable characters is \<open>0 / 0\<close>, which is NaN, and NaN is
  not below 0.3. An unreadable file gives false as well.
\<close>

theorem isTextFile_empty:
  "isTextFile (Some []) = False \<and> js_divide 0 0 = NaN \<and> less_than_0_3 NaN = False
   \<and> isTextFile None = False"
  by (simp add: isTextFile_def slice_def js_divide_def)

section \<open>Properties of the classification by content\<close>

lemma hex_byte_png:
  "toUpperCase (hex_byte 0x89) = ''89''" "toUpperCase (hex_byte 0x50) = ''50''"
  "toUpperCase (hex_byte 0x4E) = ''4E''" "toUpperCase (hex_byte 0x47) = ''47''"
  by (simp_all add: hex_byte_def toUpperCase_def upper_char_def)

lemma toUpperCase_append: "toUpperCase (a @ b) = toUpperCase a @ toUpperCase b"
  by (simp add: toUpperCase_def)

lemma png_hex:
  "toUpperCase (toString_hex (0x89 # 0x50 # 0x4E # 0x47 # rest))
     = ''89504E47'' @ toUpperCase (toString_hex rest)"
  using hex_byte_png by (simp add: toString_hex_def toUpperCase_append)

lemma png_magic:
  assumes "take 4 buffer = [0x89, 0x50, 0x4E, 0x47]"
  shows "detectMagicNumbers buffer = Some (magic ''image/png'' ''Image'' ''PNG image'')"
proof -
  have "buffer = take 4 buffer @ drop 4 buffer"
    by simp
  with assms have b: "buffer = 0x89 # 0x50 # 0x4E # 0x47 # drop 4 buffer"
    by simp
  have len: "\<not> length buffer < 4"
    using arg_cong [OF assms, of length] by simp
  have "take 16 buffer = 0x89 # 0x50 # 0x4E # 0x47 # take 12 (drop 4 buffer)"
    by (subst b) simp
  then have hex: "toUpperCase (toString_hex (take 16 buffer))
      = ''89504E47'' @ toUpperCase (toString_hex (take 12 (drop 4 buffer)))"
    by (simp only: png_hex)
  show ?thesis
    unfolding detectMagicNumbers_def Let_def hex using len by simp
qed

lemma short_buffer_no_magic:
  assumes "length buffer < 4"
  shows "detectMagicNumbers buffer = None"
  using assms by (simp add: detectMagicNumbers_def)

lemma magic_of_first_16:
  "detectMagicNumbers (take 16 buffer) = detectMagicNumbers buffer"
proof -
  have "length (take 16 buffer) < 4 \<longleftrightarrow> length buffer < 4"
    by auto
  then show ?thesis
    unfolding detectMagicNumbers_def by simp
qed

text \<open>
  Claim C7. For every path and every readable content whose first four bytes are
  89 50 4E 47, \<open>detectFromContent\<close> returns the MIME type \<open>image/png\<close>, the category
  \<open>Image\<close>, \<open>isBinary\<close> true, \<open>isText\<close> false and \<open>isImage\<close> true, whatever the extension
  of the path is, and the \<open>extension\<close> field is the one of the extension-based result,
  the lower-cased extension of the path.
\<close>

theorem png_content_classification:
  assumes "take 4 buffer = [0x89, 0x50, 0x4E, 0x47]"
  shows "mimeType (detectFromContent filePath (Some buffer)) = ''image/png''
       \<and> category (detectFromContent filePath (Some buffer)) = ''Image''
       \<and> isBinary (detectFromContent filePath (Some buffer))
       \<and> \<not> isText (detectFromContent filePath (Some buffer))
       \<and> isImage (detectFromContent filePath (Some buffer))
       \<and> FileTypeInfo.extension (detectFromContent filePath (Some buffer))
           = FileTypeInfo.extension (detectFromPath filePath)
       \<and> FileTypeInfo.extension (detectFromContent filePath (Some buffer))
           = toLowerCase (extname filePath)"
proof -
  have ext: "FileTypeInfo.extension (detectFromPath filePath) = toLowerCase (extname filePath)"
    by (simp add: detectFromPath_def Let_def)
  show ?thesis
    using ext by (simp add: detectFromContent_def png_magic [OF assms] magic_def Let_def)
qed

theorem png_content_classification_witness:
  "take 4 [0x89, 0x50, 0x4E, 0x47, 0x0D, 0x0A, 0x1A, 0x0A :: byte] = [0x89, 0x50, 0x4E, 0x47]
   \<and> mimeType (detectFromContent ''notes.txt''
        (Some [0x89, 0x50, 0x4E, 0x47, 0x0D, 0x0A, 0x1A, 0x0A])) = ''image/png''
   \<and> category (detectFromContent ''notes.txt''
        (Some [0x89, 0x50, 0x4E, 0x47, 0x0D, 0x0A, 0x1A, 0x0A])) = ''Image''
   \<and> isBinary (detectFromContent ''notes.txt''
        (Some [0x89, 0x50, 0x4E, 0x47, 0x0D, 0x0A, 0x1A, 0x0A]))
   \<and> FileTypeInfo.extension (detectFromContent ''notes.txt''
        (Some [0x89, 0x50, 0x4E, 0x47, 0x0D, 0x0A, 0x1A, 0x0A])) = ''.txt''"
proof -
  have h: "take 4 [0x89, 0x50, 0x4E, 0x47, 0x0D, 0x0A, 0x1A, 0x0A :: byte]
      = [0x89, 0x50, 0x4E, 0x47]"
    by simp
  have e: "toLowerCase (extname ''notes.txt'') = ''.txt''"
    by (simp add: extname_def path_basename_def toLowerCase_def lower_char_def)
  from png_content_classification [OF h, of "''notes.txt''"] h e show ?thesis
    by (simp add: detectFromPath_def Let_def)
qed

text \<open>
  Claim C8, as the code has it. The guard of \<open>detectMagicNumbers\<close> is a length of four
  bytes, not sixteen: a buffer of fewer than four bytes matches no signature, whatever it
  holds, and the extension-based classification is returned unchanged; and the signature
  found depends on the first sixteen bytes of the buffer at most.
\<close>

theorem short_buffer_no_signature:
  "(length buffer < 4 \<longrightarrow>
      detectMagicNumbers buffer = None
      \<and> detectFromContent filePath (Some buffer) = detectFromPath filePath)
   \<and> detectMagicNumbers (take 16 buffer) = detectMagicNumbers buffer"
  by (simp add: short_buffer_no_magic magic_of_first_16 detectFromContent_def Let_def)

theorem short_buffer_no_signature_witness:
  "length [0x89, 0x50, 0x4E :: byte] < 4
   \<and> detectMagicNumbers [0x89, 0x50, 0x4E] = None
   \<and> detectFromContent ''notes.txt'' (Some [0x89, 0x50, 0x4E]) = detectFromPath ''notes.txt''"
  using short_buffer_no_signature [of "[0x89, 0x50, 0x4E]" "''notes.txt''"] by simp

text \<open>
  The claim as the specification states it fails: the four bytes of the PNG signature
  alone, a buffer shorter than sixteen bytes, are matched, and the classification of a
  file named \<open>notes.txt\<close> with this content is not the extension-based one.
\<close>

theorem sixteen_byte_minimum_counterexample:
  "length [0x89, 0x50, 0x4E, 0x47 :: byte] < 16
   \<and> detectMagicNumbers [0x89, 0x50, 0x4E, 0x47]
       = Some \<lparr> mimeType = ''image/png'', category = ''Image'',
                description = ''PNG image'', isBinary = True \<rparr>
   \<and> mimeType (detectFromContent ''notes.txt'' (Some [0x89, 0x50, 0x4E, 0x47])) = ''image/png''
   \<and> mimeType (detectFromPath ''notes.txt'') = ''text/plain''"
proof -
  have m: "detectMagicNumbers [0x89, 0x50, 0x4E, 0x47]
      = Some (magic ''image/png'' ''Image'' ''PNG image'')"
    by (rule png_magic) simp
  have e: "toLowerCase (extname ''notes.txt'') = ''.txt''"
    by (simp add: extname_def path_basename_def toLowerCase_def lower_char_def)
  have p: "mimeType (detectFromPath ''notes.txt'') = ''text/plain''"
    by (simp add: detectFromPath_def Let_def e lookup_or_def mimeTypes_def)
  from m p show ?thesis
    by (simp add: detectFromContent_def magic_def Let_def)
qed

section \<open>Properties of the walk\<close>

lemma searchRecursive_ends_normally:
  "fst (searchRecursive rx currentPath options n acc d) = None"
  by (simp add: searchRecursive.simps split: sum.split)

lemma foldl_size_sum:
  "foldl (\<lambda>sum file. sum + size_bytes file) a fs = a + sum_list (map size_bytes fs)"
  by (induction fs arbitrary: a) simp_all

lemma search_result:
  "search rx root searchPath options =
     Inr \<lparr> files = fst (snd (searchRecursive rx searchPath options root ([], []) 0)),
           directories = snd (snd (searchRecursive rx searchPath options root ([], []) 0)),
           totalFiles = length (fst (snd (searchRecursive rx searchPath options root ([], []) 0))),
           totalDirectories =
             length (snd (snd (searchRecursive rx searchPath options root ([], []) 0))),
           totalSize = sum_list (map size_bytes
             (fst (snd (searchRecursive rx searchPath options root ([], []) 0)))) \<rparr>"
proof -
  obtain t acc where r: "searchRecursive rx searchPath options root ([], []) 0 = (t, acc)"
    by (cases "searchRecursive rx searchPath options root ([], []) 0")
  with searchRecursive_ends_normally [of rx searchPath options root "([], [])" 0]
  have "t = None" by simp
  with r show ?thesis
    by (simp add: search_def foldl_size_sum)
qed

lemma unreadable_directory_skipped:
  "readdir n = Inl e \<Longrightarrow> searchRecursive rx currentPath options n acc d = (None, acc)"
  by (simp add: searchRecursive.simps)

lemma inaccessible_entry_skipped:
  assumes "stat child = Inl e"
  shows "searchItems rx currentPath options ((item, child) # rest) acc d
       = searchItems rx currentPath options rest acc d"
  using assms by (simp add: searchItem.simps getFileInfo_def)



lemma stat_never_link:
  "stat n = Inr s \<Longrightarrow> \<not> st_isSymbolicLink s"
  by (induction n) (auto simp: mk_stats_def)

lemma getFileInfo_stat:
  assumes "getFileInfo itemPath child = Inr fileInfo"
  obtains s where "stat child = Inr s"
  using assms by (auto simp: getFileInfo_def split: sum.splits)

lemma symlink_test_false:
  assumes "getFileInfo itemPath child = Inr fileInfo"
  shows "(if followSymlinks options then Inr False
          else map_sum id st_isSymbolicLink (stat child)) = Inr False"
proof -
  from assms obtain s where s: "stat child = Inr s"
    by (rule getFileInfo_stat)
  then have "\<not> st_isSymbolicLink s"
    by (rule stat_never_link)
  with s show ?thesis
    by simp
qed

lemma searchItem_directory:
  assumes "getFileInfo itemPath child = Inr fileInfo" and "isDirectory fileInfo"
  shows "searchItem rx itemPath options child acc d
       = (case matchesPattern rx (name fileInfo) (pattern_or_star options)
                (caseSensitive options) of
            Inl e \<Rightarrow> (Some e, acc)
          | Inr matched \<Rightarrow>
              searchRecursive rx itemPath options child
                (if matched then push_directory fileInfo acc else acc) (d + 1))"
  using assms symlink_test_false [OF assms(1), of options]
  by (simp add: searchItem.simps [of _ _ _ child])

lemma unlistable_directory_entry:
  assumes "readdir subdir = Inl e"
    and "getFileInfo (path_join currentPath item) subdir = Inr fileInfo"
    and "isDirectory fileInfo"
  shows "searchItems rx currentPath options ((item, subdir) # rest) acc d
       = searchItems rx currentPath options rest
           (if \<not> includeHidden options \<and> startsWith item ''.'' then acc
            else if matchesPattern rx (name fileInfo) (pattern_or_star options)
                      (caseSensitive options) = Inr True
              then push_directory fileInfo acc
            else acc) d"
  using assms(1)
  by (auto simp: searchItem_directory [OF assms(2,3)] unreadable_directory_skipped
      split: sum.splits)







text \<open>
  Claim C1, as the code has it. \<open>search\<close> never fails: it returns a result for every
  root and every configuration. When the root itself cannot be listed, the \<open>catch\<close>
  block of \<open>searchRecursive\<close> ends the walk and the result is the empty one. Below the
  root, an entry whose metadata cannot be read is left out and the loop goes on with the
  entries after it; a directory that cannot be listed contributes nothing from below it,
  and the loop goes on with the entries after it as well, having recorded the directory
  itself if it is not hidden and its name matches the pattern.
\<close>

theorem search_never_fails:
  "(\<exists>r. search rx root searchPath options = Inr r)
   \<and> (readdir root = Inl e \<longrightarrow>
        search rx root searchPath options
          = Inr \<lparr> files = [], directories = [], totalFiles = 0, totalDirectories = 0,
                  totalSize = 0 \<rparr>)
   \<and> (stat child = Inl e' \<longrightarrow>
        searchItems rx currentPath options ((item, child) # rest) acc d
          = searchItems rx currentPath options rest acc d)
   \<and> (readdir subdir = Inl e'' \<longrightarrow>
        searchRecursive rx itemPath options subdir acc d = (None, acc))
   \<and> (readdir subdir = Inl e''
        \<and> getFileInfo (path_join currentPath entry) subdir = Inr fileInfo
        \<and> isDirectory fileInfo \<longrightarrow>
        searchItems rx currentPath options ((entry, subdir) # rest) acc d
          = searchItems rx currentPath options rest
              (if \<not> includeHidden options \<and> startsWith entry ''.'' then acc
               else if matchesPattern rx (name fileInfo) (pattern_or_star options)
                         (caseSensitive options) = Inr True
                 then push_directory fileInfo acc
               else acc) d)"
proof (intro conjI impI)
  show "\<exists>r. search rx root searchPath options = Inr r"
    by (simp add: search_result)
next
  assume "readdir root = Inl e"
  then have "searchRecursive rx searchPath options root ([], []) 0 = (None, ([], []))"
    by (rule unreadable_directory_skipped)
  then show "search rx root searchPath options
      = Inr \<lparr> files = [], directories = [], totalFiles = 0, totalDirectories = 0,
              totalSize = 0 \<rparr>"
    by (simp add: search_def)
next
  assume "stat child = Inl e'"
  then show "searchItems rx currentPath options ((item, child) # rest) acc d
      = searchItems rx currentPath options rest acc d"
    by (rule inaccessible_entry_skipped)
next
  assume "readdir subdir = Inl e''"
  then show "searchRecursive rx itemPath options subdir acc d = (None, acc)"
    by (rule unreadable_directory_skipped)
next
  assume "readdir subdir = Inl e''
      \<and> getFileInfo (path_join currentPath entry) subdir = Inr fileInfo
      \<and> isDirectory fileInfo"
  then have "readdir subdir = Inl e''"
    and "getFileInfo (path_join currentPath entry) subdir = Inr fileInfo"
    and "isDirectory fileInfo"
    by simp_all
  then show "searchItems rx currentPath options ((entry, subdir) # rest) acc d
      = searchItems rx currentPath options rest
          (if \<not> includeHidden options \<and> startsWith entry ''.'' then acc
           else if matchesPattern rx (name fileInfo) (pattern_or_star options)
                     (caseSensitive options) = Inr True
             then push_directory fileInfo acc
           else acc) d"
    by (rule unlistable_directory_entry)
qed

theorem search_never_fails_witness:
  "readdir (Directory (plain 4096) False []) = Inl EACCES
   \<and> search js_regexp (Directory (plain 4096) False []) ''/root'' no_options
        = Inr \<lparr> files = [], directories = [], totalFiles = 0, totalDirectories = 0,
                totalSize = 0 \<rparr>
   \<and> stat Inaccessible = Inl ENOENT
   \<and> searchItems js_regexp ''/root'' no_options
        [(''gone'', Inaccessible), (''a.txt'', File (plain 5))] ([], []) 0
        = searchItems js_regexp ''/root'' no_options [(''a.txt'', File (plain 5))] ([], []) 0
   \<and> searchRecursive js_regexp ''/root/locked'' no_options (Directory (plain 4096) False [])
        ([], []) 0 = (None, ([], []))
   \<and> getFileInfo (path_join ''/root'' ''locked'') (Directory (plain 4096) False [])
        = Inr \<lparr> path = ''/root/locked'', name = ''locked'', extension = '''',
                size_bytes = 4096, isDirectory = True, isFile = False, createdAt = 0,
                modifiedAt = 0, accessedAt = 0 \<rparr>
   \<and> searchItems js_regexp ''/root'' no_options
        [(''locked'', Directory (plain 4096) False []), (''z.txt'', File (plain 3))] ([], []) 0
        = ([\<lparr> path = ''/root/z.txt'', name = ''z.txt'', extension = ''.txt'', size_bytes = 3,
               isDirectory = False, isFile = True, createdAt = 0, modifiedAt = 0,
               accessedAt = 0 \<rparr>],
           [\<lparr> path = ''/root/locked'', name = ''locked'', extension = '''',
               size_bytes = 4096, isDirectory = True, isFile = False, createdAt = 0,
               modifiedAt = 0, accessedAt = 0 \<rparr>])"
proof -
  let ?locked = "Directory (plain 4096) False []"
  let ?info = "\<lparr> path = ''/root/locked'', name = ''locked'', extension = '''',
      size_bytes = 4096, isDirectory = True, isFile = False, createdAt = 0,
      modifiedAt = 0, accessedAt = 0 \<rparr>"
  let ?z = "\<lparr> path = ''/root/z.txt'', name = ''z.txt'', extension = ''.txt'', size_bytes = 3,
      isDirectory = False, isFile = True, createdAt = 0, modifiedAt = 0, accessedAt = 0 \<rparr>"
  note t = search_never_fails [where rx = js_regexp and root = ?locked
      and searchPath = "''/root''" and options = no_options and e = EACCES
      and child = Inaccessible and e' = ENOENT and currentPath = "''/root''"
      and item = "''gone''" and acc = "([], [])" and d = 0 and subdir = ?locked
      and e'' = EACCES and itemPath = "''/root/locked''" and entry = "''locked''"
      and fileInfo = ?info]
  have h1: "readdir ?locked = Inl EACCES"
    by simp
  have h2: "stat Inaccessible = Inl ENOENT"
    by simp
  have h3: "getFileInfo (path_join ''/root'' ''locked'') ?locked = Inr ?info"
    by code_simp
  have h4: "isDirectory ?info"
    by simp
  from t [where rest = "[]"] h1
  have c1: "search js_regexp ?locked ''/root'' no_options
      = Inr \<lparr> files = [], directories = [], totalFiles = 0, totalDirectories = 0,
              totalSize = 0 \<rparr>"
    by blast
  from t [where rest = "[(''a.txt'', File (plain 5))]"] h2
  have c2: "searchItems js_regexp ''/root'' no_options
        [(''gone'', Inaccessible), (''a.txt'', File (plain 5))] ([], []) 0
      = searchItems js_regexp ''/root'' no_options [(''a.txt'', File (plain 5))] ([], []) 0"
    by blast
  from t [where rest = "[]"] h1
  have c3: "searchRecursive js_regexp ''/root/locked'' no_options ?locked ([], []) 0
      = (None, ([], []))"
    by blast
  from t [where rest = "[(''z.txt'', File (plain 3))]"] h1 h3 h4
  have "searchItems js_regexp ''/root'' no_options
        [(''locked'', ?locked), (''z.txt'', File (plain 3))] ([], []) 0
      = searchItems js_regexp ''/root'' no_options [(''z.txt'', File (plain 3))]
          (if \<not> includeHidden no_options \<and> startsWith ''locked'' ''.'' then ([], [])
           else if matchesPattern js_regexp (name ?info) (pattern_or_star no_options)
                     (caseSensitive no_options) = Inr True
             then push_directory ?info ([], [])
           else ([], [])) 0"
    by blast
  also have "\<dots> = ([?z], [?info])"
    by code_simp
  finally have c4: "searchItems js_regexp ''/root'' no_options
        [(''locked'', ?locked), (''z.txt'', File (plain 3))] ([], []) 0 = ([?z], [?info])" .
  from h1 c1 h2 c2 c3 h3 c4 show ?thesis
    by (intro conjI)
qed

text \<open>
  The claim as the specification states it fails: a search whose root is a directory
  that may not be read, or a path that does not exist, returns the empty result normally.
\<close>

theorem unreadable_root_counterexample:
  "readdir (Directory (plain 4096) False []) = Inl EACCES
   \<and> search js_regexp (Directory (plain 4096) False []) ''/root'' no_options
      = Inr \<lparr> files = [], directories = [], totalFiles = 0, totalDirectories = 0,
              totalSize = 0 \<rparr>
   \<and> readdir Inaccessible = Inl ENOENT
   \<and> search js_regexp Inaccessible ''/missing'' no_options
      = Inr \<lparr> files = [], directories = [], totalFiles = 0, totalDirectories = 0,
              totalSize = 0 \<rparr>"
  by (simp add: search_def searchRecursive.simps no_options_def)

lemma pattern_or_star_followSymlinks [simp]:
  "pattern_or_star (options\<lparr>followSymlinks := b\<rparr>) = pattern_or_star options"
  by (simp add: pattern_or_star_def)

lemma matchesOptions_followSymlinks [simp]:
  "matchesOptions fileInfo (options\<lparr>followSymlinks := b\<rparr>) = matchesOptions fileInfo options"
  by (simp add: matchesOptions_def)

lemma followSymlinks_ignored:
  "searchRecursive rx p options n acc d
     = searchRecursive rx p (options\<lparr>followSymlinks := b\<rparr>) n acc d"
  "searchItems rx p options items acc d
     = searchItems rx p (options\<lparr>followSymlinks := b\<rparr>) items acc d"
  "searchItem rx p options n acc d
     = searchItem rx p (options\<lparr>followSymlinks := b\<rparr>) n acc d"
proof (induction rx p options n acc d and rx p options items acc d and rx p options n acc d
    rule: searchRecursive_searchItems_searchItem.induct)
  case (1 rx currentPath options n acc currentDepth)
  then show ?case
    by (simp add: searchRecursive.simps [of _ _ _ n] split: sum.splits option.splits)
next
  case (2 rx currentPath options acc currentDepth)
  then show ?case by simp
next
  case (3 rx currentPath options item child rest acc currentDepth)
  then show ?case by simp
next
  case (4 rx itemPath options child acc currentDepth)
  show ?case
  proof (cases "getFileInfo itemPath child")
    case (Inl e)
    then show ?thesis
      by (simp add: searchItem.simps [of _ _ _ child])
  next
    case (Inr fileInfo)
    then obtain s where s: "stat child = Inr s"
      by (auto simp: getFileInfo_def split: sum.splits)
    then have nl: "\<not> st_isSymbolicLink s"
      by (rule stat_never_link)
    show ?thesis
    proof (cases "isDirectory fileInfo")
      case True
      show ?thesis
      proof (cases "matchesPattern rx (name fileInfo) (pattern_or_star options)
          (caseSensitive options)")
        case (Inl e)
        with Inr s nl True show ?thesis
          by (simp add: searchItem.simps [of _ _ _ child])
      next
        case m: (Inr m)
        have "searchRecursive rx itemPath options child
            (if m then push_directory fileInfo acc else acc) (currentDepth + 1)
          = searchRecursive rx itemPath (options\<lparr>followSymlinks := b\<rparr>) child
            (if m then push_directory fileInfo acc else acc) (currentDepth + 1)"
        proof -
          have chk: "(if followSymlinks options then Inr False
              else map_sum id st_isSymbolicLink (stat child)) = Inr False"
            using s nl by simp
          show ?thesis
            by (rule "4.IH" [OF Inr chk refl True m])
        qed
        with Inr s nl True m show ?thesis
          by (cases b; cases m; simp add: searchItem.simps [of _ _ _ child])
      qed
    next
      case False
      with Inr s nl show ?thesis
        by (simp add: searchItem.simps [of _ _ _ child] split: sum.splits)
    qed
  qed
qed

lemma search_followSymlinks:
  "search rx root searchPath (options\<lparr>followSymlinks := b\<rparr>)
     = search rx root searchPath options"
  by (simp add: search_def followSymlinks_ignored(1) [symmetric])

text \<open>
  Claim C2 does not hold of the code. The test for symbolic links is made on the result
  of \<open>stat\<close>, which describes the target of a link, so it never succeeds: with
  \<open>followSymlinks\<close> false, a link to a file is recorded as a file, and a link to a
  directory is recorded as a directory and searched. The option has no effect at all:
  the result of a search is the same with \<open>followSymlinks\<close> false and true.
\<close>

theorem symlink_not_skipped:
  "search rx root searchPath (options \<lparr> followSymlinks := False \<rparr>)
     = search rx root searchPath (options \<lparr> followSymlinks := True \<rparr>)
   \<and> followSymlinks no_options = False
   \<and> search js_regexp
        (Directory (plain 4096) True
           [(''link'', SymbolicLink (File (plain 5))),
            (''dlink'', SymbolicLink (Directory (plain 4096) True
                          [(''inner.txt'', File (plain 7))]))])
        ''/root'' no_options
      = Inr \<lparr> files =
                [\<lparr> path = ''/root/link'', name = ''link'', extension = '''', size_bytes = 5,
                    isDirectory = False, isFile = True, createdAt = 0, modifiedAt = 0,
                    accessedAt = 0 \<rparr>,
                 \<lparr> path = ''/root/dlink/inner.txt'', name = ''inner.txt'',
                    extension = ''.txt'', size_bytes = 7, isDirectory = False, isFile = True,
                    createdAt = 0, modifiedAt = 0, accessedAt = 0 \<rparr>],
              directories =
                [\<lparr> path = ''/root/dlink'', name = ''dlink'', extension = '''',
                    size_bytes = 4096, isDirectory = True, isFile = False, createdAt = 0,
                    modifiedAt = 0, accessedAt = 0 \<rparr>],
              totalFiles = 2, totalDirectories = 1, totalSize = 12 \<rparr>"
proof -
  have "search rx root searchPath (options \<lparr> followSymlinks := False \<rparr>)
      = search rx root searchPath (options \<lparr> followSymlinks := True \<rparr>)"
    by (simp only: search_followSymlinks)
  moreover have "followSymlinks no_options = False"
    by (simp add: no_options_def)
  moreover have "search js_regexp
        (Directory (plain 4096) True
           [(''link'', SymbolicLink (File (plain 5))),
            (''dlink'', SymbolicLink (Directory (plain 4096) True
                          [(''inner.txt'', File (plain 7))]))])
        ''/root'' no_options
      = Inr \<lparr> files =
                [\<lparr> path = ''/root/link'', name = ''link'', extension = '''', size_bytes = 5,
                    isDirectory = False, isFile = True, createdAt = 0, modifiedAt = 0,
                    accessedAt = 0 \<rparr>,
                 \<lparr> path = ''/root/dlink/inner.txt'', name = ''inner.txt'',
                    extension = ''.txt'', size_bytes = 7, isDirectory = False, isFile = True,
                    createdAt = 0, modifiedAt = 0, accessedAt = 0 \<rparr>],
              directories =
                [\<lparr> path = ''/root/dlink'', name = ''dlink'', extension = '''',
                    size_bytes = 4096, isDirectory = True, isFile = False, createdAt = 0,
                    modifiedAt = 0, accessedAt = 0 \<rparr>],
              totalFiles = 2, totalDirectories = 1, totalSize = 12 \<rparr>"
    by code_simp
  ultimately show ?thesis
    by (intro conjI)
qed

text \<open>
  Claim C3 does not hold of the code. The extension of the file is lower-cased, the
  configured extensions are not: a configured \<open>.JS\<close> does not match the file \<open>a.js\<close>,
  although a configured \<open>.js\<close> matches the file \<open>a.JS\<close>.
\<close>

theorem upper_case_extension_not_matched:
  "matchesOptions
     \<lparr> path = ''/root/a.js'', name = ''a.js'', extension = ''.js'', size_bytes = 5,
       isDirectory = False, isFile = True, createdAt = 0, modifiedAt = 0, accessedAt = 0 \<rparr>
     (no_options \<lparr> extensions := Some [''.JS''] \<rparr>) = False
   \<and> matchesOptions
     \<lparr> path = ''/root/a.JS'', name = ''a.JS'', extension = ''.JS'', size_bytes = 5,
       isDirectory = False, isFile = True, createdAt = 0, modifiedAt = 0, accessedAt = 0 \<rparr>
     (no_options \<lparr> extensions := Some [''.js''] \<rparr>) = True
   \<and> search js_regexp (Directory (plain 4096) True [(''a.js'', File (plain 5))]) ''/root''
        (no_options \<lparr> extensions := Some [''.JS''] \<rparr>)
      = Inr \<lparr> files = [], directories = [], totalFiles = 0, totalDirectories = 0,
              totalSize = 0 \<rparr>"
  by code_simp

text \<open>
  Claim C4 does not hold of the code. Only the dot is escaped when a glob is turned
  into a regular expression: the \<open>+\<close> of the pattern \<open>a+b\<close> stays a quantifier, so the
  pattern does not match the name \<open>a+b\<close> and matches the name \<open>aab\<close>. The dot of the
  pattern \<open>a.b\<close> is escaped and matches a dot only. For the pattern \<open>c++\<close> the source
  \<open>^c++$\<close> has a quantifier with nothing to repeat, and the constructor throws.
\<close>

theorem plus_not_escaped:
  "regexPattern ''a+b'' = ''a+b''
   \<and> matchesPattern js_regexp ''a+b'' (Glob ''a+b'') False = Inr False
   \<and> matchesPattern js_regexp ''aab'' (Glob ''a+b'') False = Inr True
   \<and> regexPattern ''a.b'' = [CHR ''a'', CHR 0x5C, CHR ''.'', CHR ''b'']
   \<and> matchesPattern js_regexp ''a.b'' (Glob ''a.b'') False = Inr True
   \<and> matchesPattern js_regexp ''aab'' (Glob ''a.b'') False = Inr False
   \<and> regexPattern ''c++'' = ''c++''
   \<and> matchesPattern js_regexp ''c++'' (Glob ''c++'') False = Inl SyntaxError"
  by code_simp



text \<open>
  Claim C6. For every root and every configuration \<open>search\<close> returns a result, in which
  \<open>totalFiles\<close> is the length of \<open>files\<close>, \<open>totalDirectories\<close> is the length of
  \<open>directories\<close>, and \<open>totalSize\<close> is the sum of the sizes of the entries of \<open>files\<close>.
\<close>

theorem search_totals:
  "\<exists>r. search rx root searchPath options = Inr r
     \<and> totalFiles r = length (files r)
     \<and> totalDirectories r = length (directories r)
     \<and> totalSize r = sum_list (map size_bytes (files r))"
  by (simp add: search_result)

end
